theory Spec2Isabelle
  imports Main "HOL-Library.Signed_Division"
begin

section \<open>Console output\<close>

text \<open>
  Everything the program shows goes through \<^verbatim>\<open>cout\<close>. The model keeps the sequence of
  items handed to \<^verbatim>\<open>operator<<\<close>: a piece of text, \<^verbatim>\<open>endl\<close>, an object address (the
  result of \<^verbatim>\<open>get()\<close>; \<open>None\<close> is the null pointer) or an integer.
\<close>

datatype tok = Txt string | Endl | Ptr "nat option" | Num int

text \<open>
  The line breaks an item puts on the console: \<^verbatim>\<open>endl\<close> writes one, a text writes the ones
  it contains (the source itself prints \<^verbatim>\<open>"---- Pointer casting: \n"\<close>), an address or a
  number writes none.
\<close>

fun line_breaks :: "tok \<Rightarrow> nat" where
  "line_breaks (Txt t) = count_list t (CHR 0x0A)"
| "line_breaks Endl = 1"
| "line_breaks (Ptr p) = 0"
| "line_breaks (Num n) = 0"

definition output_lines :: "tok list \<Rightarrow> nat" where
  "output_lines ts = sum_list (map line_breaks ts)"

section \<open>The vector functions\<close>

text \<open>
  \<^verbatim>\<open>fill_vector\<close> (lines 31-35) appends \<open>0, 1, ..., vecSize - 1\<close>; the loop counter is
  the first argument of \<open>fill_loop\<close>.
\<close>

function fill_loop :: "int \<Rightarrow> int \<Rightarrow> int list \<Rightarrow> int list" where
  "fill_loop i vecSize v = (if i < vecSize then fill_loop (i + 1) vecSize (v @ [i]) else v)"
  by pat_completeness auto
termination
  by (relation "measure (\<lambda>(i, vecSize, v). nat (vecSize - i))") auto

definition fill_vector :: "int list \<Rightarrow> int \<Rightarrow> int list" where
  "fill_vector v vecSize = fill_loop 0 vecSize v"

text \<open>
  \<^verbatim>\<open>modify_vector\<close> (lines 23-28) walks the vector by reference and overwrites each element
  with \<^verbatim>\<open>rand() % 10\<close>. The C library's \<^verbatim>\<open>rand\<close> is not part of the repository: it is
  the parameter \<open>rand\<close>, a step on the generator's hidden state \<open>'g\<close> that returns the
  next number. \<^verbatim>\<open>%\<close> is C++'s remainder, which truncates towards zero: \<open>smod\<close>.
\<close>

fun modify_vector :: "('g \<Rightarrow> int \<times> 'g) \<Rightarrow> int list \<Rightarrow> 'g \<Rightarrow> int list \<times> 'g" where
  "modify_vector rand [] g = ([], g)"
| "modify_vector rand (x # v) g =
     (case rand g of (r, g') \<Rightarrow>
        (case modify_vector rand v g' of (v', g'') \<Rightarrow> ((r smod 10) # v', g'')))"

text \<open>
  A generator to run \<open>modify_vector\<close> on: the linear congruential example of the C
  standard, whose results lie between 0 and 32767.
\<close>

definition lcg_rand :: "int \<Rightarrow> int \<times> int" where
  "lcg_rand g =
     (let g' = (g * 1103515245 + 12345) mod 4294967296
      in ((g' div 65536) mod 32768, g'))"

section \<open>The variadic printer\<close>

text \<open>
  \<^verbatim>\<open>output_values\<close> (lines 64-79): the overload without arguments prints the closing line;
  the variadic template prints its first argument and \<^verbatim>\<open>endl\<close>, then calls itself on the
  rest of the pack. The arguments are given as the items \<^verbatim>\<open>operator<<\<close> receives, and
  \<^verbatim>\<open>cout\<close> is passed along.
\<close>

fun output_values :: "tok list \<Rightarrow> tok list \<Rightarrow> tok list" where
  "output_values [] out =
     out @ [Txt ''This is the final function call.. I am an empty function'', Endl]"
| "output_values (stuff_to_print # finalValue) out =
     output_values finalValue (out @ [stuff_to_print, Endl])"

section \<open>Objects and their life cycle\<close>

text \<open>
  Each of the two pointer examples declares its own local structs \<^verbatim>\<open>A\<close> and
  \<^verbatim>\<open>B : A\<close>. \<open>UA\<close> and \<open>UB\<close> are the ones of \<^verbatim>\<open>unique_pointer_example\<close> (lines
  89-101), \<open>SA\<close> and \<open>SB\<close> the ones of \<^verbatim>\<open>shared_pointer_example\<close> (lines 132-146).
\<close>

datatype cls = UA | UB | SA | SB

fun base_class :: "cls \<Rightarrow> cls option" where
  "base_class UA = None"
| "base_class UB = Some UA"
| "base_class SA = None"
| "base_class SB = Some SA"

text \<open>How many base classes a class has.\<close>

fun depth :: "cls \<Rightarrow> nat" where
  "depth c = (case base_class c of None \<Rightarrow> 0 | Some b \<Rightarrow> 1)"

text \<open>
  \<open>is_a c t\<close>: an object whose most derived class is \<open>c\<close> is a \<open>t\<close>, which is what
  \<^verbatim>\<open>dynamic_cast<t*>\<close> tests. The hierarchies are two levels deep.
\<close>

definition is_a :: "cls \<Rightarrow> cls \<Rightarrow> bool" where
  "is_a c t = (c = t \<or> base_class c = Some t)"

text \<open>
  No destructor in the source is declared \<^verbatim>\<open>virtual\<close> (lines 91, 98, 136, 143); only
  \<^verbatim>\<open>to_string\<close> is.
\<close>

fun virtual_destructor :: "cls \<Rightarrow> bool" where
  "virtual_destructor UA = False"
| "virtual_destructor UB = False"
| "virtual_destructor SA = False"
| "virtual_destructor SB = False"

text \<open>
  An object on the free store: its most derived class and the field \<^verbatim>\<open>member\<close> of
  \<^verbatim>\<open>shared_pointer_example\<close>'s \<^verbatim>\<open>A\<close>. The structs of \<^verbatim>\<open>unique_pointer_example\<close> have no
  field; their objects leave \<open>member\<close> empty and nothing reads it.
\<close>

record obj =
  dyn :: cls
  member :: string

text \<open>
  The control block of a group of \<^verbatim>\<open>shared_ptr\<close> co-owners: the object it manages, the
  class it was made for (\<^verbatim>\<open>make_shared<T>\<close> destroys the object as a \<^verbatim>\<open>T\<close>, whatever
  the type of the last owner), and the number of owners.
\<close>

record ctrl_block =
  managed :: nat
  made_as :: cls
  owners :: nat

text \<open>
  A \<^verbatim>\<open>shared_ptr\<close> value: the stored pointer, which \<^verbatim>\<open>get()\<close> returns, and the control
  block it shares. The empty pointer has neither.
\<close>

record shared_ptr =
  stored :: "nat option"
  block :: "nat option"

definition empty_ptr :: shared_ptr where
  "empty_ptr = \<lparr>stored = None, block = None\<rparr>"

text \<open>The local smart pointer variables of the two examples.\<close>

datatype var = ptrA | ptrB | ptrC | basePtr | derivedPtr | downCastPtr

text \<open>
  The state of a run: the free store, the control blocks, the next address the allocator
  hands out, the locals of the running example (a \<^verbatim>\<open>unique_ptr\<close> is its raw pointer),
  the console, and a mark set once the run has done something whose behaviour the C++
  standard leaves undefined.
\<close>

record state =
  heap :: "nat \<rightharpoonup> obj"
  blocks :: "nat \<rightharpoonup> ctrl_block"
  next_addr :: nat
  uvars :: "var \<Rightarrow> nat option"
  svars :: "var \<Rightarrow> shared_ptr"
  cout :: "tok list"
  undefined_behaviour :: bool

datatype fault = NullDereference | DanglingPointer

definition print :: "tok list \<Rightarrow> state \<Rightarrow> state" where
  "print ts s = s\<lparr>cout := cout s @ ts\<rparr>"

definition set_member :: "nat \<Rightarrow> string \<Rightarrow> state \<Rightarrow> state" where
  "set_member this v s =
     (case heap s this of
        None \<Rightarrow> s
      | Some ob \<Rightarrow> s\<lparr>heap := (heap s)(this \<mapsto> ob\<lparr>member := v\<rparr>)\<rparr>)"

text \<open>The constructor bodies (lines 90, 97, 135, 142).\<close>

fun ctor_body :: "cls \<Rightarrow> nat \<Rightarrow> state \<Rightarrow> state" where
  "ctor_body UA this s = print [Txt ''A Created'', Endl] s"
| "ctor_body UB this s = print [Txt ''B:A Created'', Endl] s"
| "ctor_body SA this s = set_member this ''A'' (print [Txt ''A Created'', Endl] s)"
| "ctor_body SB this s = set_member this ''B'' (print [Txt ''B:A Created'', Endl] s)"

text \<open>Construction runs the constructor of the base class, then the class's own body.\<close>

function construct :: "cls \<Rightarrow> nat \<Rightarrow> state \<Rightarrow> state" where
  "construct UA this s = ctor_body UA this s"
| "construct UB this s = ctor_body UB this (construct UA this s)"
| "construct SA this s = ctor_body SA this s"
| "construct SB this s = ctor_body SB this (construct SA this s)"
  by pat_completeness auto
termination
  by (relation "measure (\<lambda>(c, this, s). depth c)") auto

text \<open>The destructor bodies (lines 91, 98, 136, 143), with the source's spelling.\<close>

fun dtor_body :: "cls \<Rightarrow> state \<Rightarrow> state" where
  "dtor_body UA s = print [Txt ''A Destroyed'', Endl] s"
| "dtor_body UB s = print [Txt ''B:A Destoyed'', Endl] s"
| "dtor_body SA s = print [Txt ''A Destroyed'', Endl] s"
| "dtor_body SB s = print [Txt ''B:A Destoyed'', Endl] s"

text \<open>
  Running the destructor of class \<open>c\<close>: the class's own body, then the destructor of its
  base class.
\<close>

function destroy :: "cls \<Rightarrow> state \<Rightarrow> state" where
  "destroy UA s = dtor_body UA s"
| "destroy UB s = destroy UA (dtor_body UB s)"
| "destroy SA s = dtor_body SA s"
| "destroy SB s = destroy SA (dtor_body SB s)"
  by pat_completeness auto
termination
  by (relation "measure (\<lambda>(c, s). depth c)") auto

text \<open>The final overrider of the virtual \<^verbatim>\<open>to_string\<close> (lines 93, 100, 138, 145).\<close>

fun to_string :: "cls \<Rightarrow> state \<Rightarrow> state" where
  "to_string UA s = print [Txt ''I am an A'', Endl] s"
| "to_string UB s = print [Txt ''I am a B'', Endl] s"
| "to_string SA s = print [Txt ''I am an A'', Endl] s"
| "to_string SB s = print [Txt ''I am a B'', Endl] s"

text \<open>
  \<^verbatim>\<open>new T()\<close>: a fresh address, the object with most derived class \<open>c\<close> and a default
  (empty) \<^verbatim>\<open>member\<close>, then its constructors.
\<close>

definition new_object :: "cls \<Rightarrow> state \<Rightarrow> nat \<times> state" where
  "new_object c s =
     (let a = next_addr s;
          s1 = s\<lparr>heap := (heap s)(a \<mapsto> \<lparr>dyn = c, member = []\<rparr>), next_addr := a + 1\<rparr>
      in (a, construct c a s1))"

text \<open>
  \<^verbatim>\<open>delete p\<close> where \<open>p\<close> has the static type \<^verbatim>\<open>T*\<close>, which is what
  \<^verbatim>\<open>default_delete<T>\<close> does. The destructor call is bound to \<^verbatim>\<open>T\<close>'s destructor unless
  that one is virtual, in which case the most derived class's destructor runs. Deleting an
  object of another class through a non-virtual destructor is undefined behaviour in C++;
  the model marks it and shows what the statically bound call does.
\<close>

definition delete_object :: "cls \<Rightarrow> nat \<Rightarrow> state \<Rightarrow> state" where
  "delete_object T p s =
     (case heap s p of
        None \<Rightarrow> s\<lparr>undefined_behaviour := True\<rparr>
      | Some ob \<Rightarrow>
          (let entry = (if virtual_destructor T then dyn ob else T);
               s1 = destroy entry s;
               s2 = s1\<lparr>heap := (heap s1)(p := None)\<rparr>
           in if entry = dyn ob then s2 else s2\<lparr>undefined_behaviour := True\<rparr>))"

text \<open>\<^verbatim>\<open>p->to_string()\<close>: a virtual call, dispatched on the object's most derived class.\<close>

definition call_to_string :: "nat option \<Rightarrow> state \<Rightarrow> fault + state" where
  "call_to_string p s =
     (case p of
        None \<Rightarrow> Inl NullDereference
      | Some a \<Rightarrow>
          (case heap s a of
             None \<Rightarrow> Inl DanglingPointer
           | Some ob \<Rightarrow> Inr (to_string (dyn ob) s)))"

text \<open>\<^verbatim>\<open>p->member\<close>.\<close>

definition read_member :: "nat option \<Rightarrow> state \<Rightarrow> fault + string" where
  "read_member p s =
     (case p of
        None \<Rightarrow> Inl NullDereference
      | Some a \<Rightarrow>
          (case heap s a of
             None \<Rightarrow> Inl DanglingPointer
           | Some ob \<Rightarrow> Inr (member ob)))"

section \<open>Exclusive owners: \<^verbatim>\<open>unique_ptr\<close>\<close>

text \<open>
  A statement of an example takes the state and returns the next one, or the fault that
  stops the run. \<open>run\<close> executes statements in sequence.
\<close>

type_synonym stmt = "state \<Rightarrow> fault + state"

fun run :: "stmt list \<Rightarrow> state \<Rightarrow> fault + state" where
  "run [] s = Inr s"
| "run (f # fs) s = (case f s of Inl e \<Rightarrow> Inl e | Inr s' \<Rightarrow> run fs s')"

text \<open>A call of an example starts with its own locals, none of them initialised yet.\<close>

definition enter :: "state \<Rightarrow> state" where
  "enter s = s\<lparr>uvars := (\<lambda>v. None), svars := (\<lambda>v. empty_ptr)\<rparr>"

text \<open>\<^verbatim>\<open>cout << ...\<close> of constant items.\<close>

definition say :: "tok list \<Rightarrow> stmt" where
  "say ts s = Inr (print ts s)"

text \<open>
  \<^verbatim>\<open>unique_ptr<..> v = make_unique<c>()\<close>: the new object's address becomes the raw
  pointer of \<open>v\<close>. Converting \<^verbatim>\<open>unique_ptr<B>\<close> to \<^verbatim>\<open>unique_ptr<A>\<close> (line 121) keeps the
  address; the deleter is then \<^verbatim>\<open>default_delete<A>\<close>, the type of the variable.
\<close>

definition make_unique :: "cls \<Rightarrow> var \<Rightarrow> stmt" where
  "make_unique c v s =
     (case new_object c s of (a, s') \<Rightarrow> Inr (s'\<lparr>uvars := (uvars s')(v := Some a)\<rparr>))"

definition unique_to_string :: "var \<Rightarrow> stmt" where
  "unique_to_string v s = call_to_string (uvars s v) s"

text \<open>
  \<^verbatim>\<open>v = nullptr\<close> for a \<^verbatim>\<open>unique_ptr<T> v\<close>: the pointer becomes null and the object it
  owned, if any, is deleted as a \<^verbatim>\<open>T\<close>. The destructor of \<open>v\<close> at the end of the scope
  does the same.
\<close>

definition unique_reset :: "cls \<Rightarrow> var \<Rightarrow> stmt" where
  "unique_reset T v s =
     (case uvars s v of
        None \<Rightarrow> Inr s
      | Some p \<Rightarrow> Inr (delete_object T p (s\<lparr>uvars := (uvars s)(v := None)\<rparr>)))"

text \<open>
  \<^verbatim>\<open>unique_pointer_example\<close>, lines 111-123, one statement per element; the last three
  are the destructors of the locals at the closing brace, in reverse order of declaration.
\<close>

definition unique_pointer_example_body :: "stmt list" where
  "unique_pointer_example_body =
     [make_unique UA ptrA,       \<comment> \<open>1: line 111\<close>
      unique_to_string ptrA,     \<comment> \<open>2: line 112\<close>
      make_unique UB ptrB,       \<comment> \<open>3: line 114\<close>
      unique_to_string ptrB,     \<comment> \<open>4: line 115\<close>
      unique_reset UA ptrA,      \<comment> \<open>5: line 117, \<^verbatim>\<open>unique_ptr<A> ptrA\<close>\<close>
      unique_reset UB ptrB,      \<comment> \<open>6: line 118, \<^verbatim>\<open>unique_ptr<B> ptrB\<close>\<close>
      say [Endl, Txt ''Run-time polymorphism and dynamic dispatch: '', Endl],
                                 \<comment> \<open>7: line 120\<close>
      make_unique UB ptrC,       \<comment> \<open>8: line 121\<close>
      unique_to_string ptrC,     \<comment> \<open>9: line 122\<close>
      unique_reset UA ptrC,      \<comment> \<open>10: line 123, \<^verbatim>\<open>unique_ptr<A> ptrC\<close> goes out of scope\<close>
      unique_reset UB ptrB,      \<comment> \<open>11: line 123, \<^verbatim>\<open>ptrB\<close> goes out of scope\<close>
      unique_reset UA ptrA]      \<comment> \<open>12: line 123, \<^verbatim>\<open>ptrA\<close> goes out of scope\<close>"

definition unique_pointer_example :: "state \<Rightarrow> fault + state" where
  "unique_pointer_example s = run unique_pointer_example_body (enter s)"

text \<open>The state after the first \<open>k\<close> statements of the example.\<close>

definition unique_pointer_example_upto :: "nat \<Rightarrow> state \<Rightarrow> fault + state" where
  "unique_pointer_example_upto k s = run (take k unique_pointer_example_body) (enter s)"

section \<open>Shared owners: \<^verbatim>\<open>shared_ptr\<close>\<close>

text \<open>\<^verbatim>\<open>use_count()\<close>: the owners of the control block; 0 for an empty pointer.\<close>

definition use_count :: "shared_ptr \<Rightarrow> state \<Rightarrow> int" where
  "use_count p s =
     (case block p of
        None \<Rightarrow> 0
      | Some c \<Rightarrow> (case blocks s c of None \<Rightarrow> 0 | Some cb \<Rightarrow> int (owners cb)))"

text \<open>One more owner of \<open>p\<close>'s control block (copying a \<^verbatim>\<open>shared_ptr\<close>).\<close>

definition acquire :: "shared_ptr \<Rightarrow> state \<Rightarrow> state" where
  "acquire p s =
     (case block p of
        None \<Rightarrow> s
      | Some c \<Rightarrow>
          (case blocks s c of
             None \<Rightarrow> s
           | Some cb \<Rightarrow> s\<lparr>blocks := (blocks s)(c \<mapsto> cb\<lparr>owners := owners cb + 1\<rparr>)\<rparr>))"

text \<open>
  One owner less. The last owner destroys the managed object, as the class the block was
  made for, and the block goes away.
\<close>

definition release :: "shared_ptr \<Rightarrow> state \<Rightarrow> state" where
  "release p s =
     (case block p of
        None \<Rightarrow> s
      | Some c \<Rightarrow>
          (case blocks s c of
             None \<Rightarrow> s
           | Some cb \<Rightarrow>
               if owners cb \<le> 1
               then (let s1 = destroy (made_as cb) s
                     in s1\<lparr>heap := (heap s1)(managed cb := None),
                           blocks := (blocks s1)(c := None)\<rparr>)
               else s\<lparr>blocks := (blocks s)(c \<mapsto> cb\<lparr>owners := owners cb - 1\<rparr>)\<rparr>))"

text \<open>
  \<^verbatim>\<open>auto v = make_shared<c>()\<close>: object and control block come from one allocation, so
  the block is filed under the object's address; \<open>v\<close> is the only owner.
\<close>

definition make_shared :: "cls \<Rightarrow> var \<Rightarrow> stmt" where
  "make_shared c v s =
     (case new_object c s of
        (a, s') \<Rightarrow>
          Inr (s'\<lparr>blocks := (blocks s')(a \<mapsto> \<lparr>managed = a, made_as = c, owners = 1\<rparr>),
                  svars := (svars s')(v := \<lparr>stored = Some a, block = Some a\<rparr>)\<rparr>))"

text \<open>\<^verbatim>\<open>shared_ptr<A> v = w\<close> (line 149): \<open>v\<close> becomes a co-owner of what \<open>w\<close> owns.\<close>

definition copy_shared :: "var \<Rightarrow> var \<Rightarrow> stmt" where
  "copy_shared v w s =
     (let p = svars s w; s1 = acquire p s
      in Inr (s1\<lparr>svars := (svars s1)(v := p)\<rparr>))"

text \<open>
  \<^verbatim>\<open>v = nullptr\<close> (lines 160, 161): \<open>v\<close> becomes empty and gives up its share. The
  destructor of \<open>v\<close> at the end of the scope does the same.
\<close>

definition shared_reset :: "var \<Rightarrow> stmt" where
  "shared_reset v s =
     (let p = svars s v
      in Inr (release p (s\<lparr>svars := (svars s)(v := empty_ptr)\<rparr>)))"

text \<open>
  \<^verbatim>\<open>static_pointer_cast<T>(p)\<close>: a new owner of \<open>p\<close>'s control block with the same address
  (the hierarchy has single inheritance, the base subobject sits at the object's address).
\<close>

definition static_pointer_cast :: "shared_ptr \<Rightarrow> state \<Rightarrow> shared_ptr \<times> state" where
  "static_pointer_cast p s = (p, acquire p s)"

text \<open>
  \<^verbatim>\<open>dynamic_pointer_cast<T>(p)\<close>: \<^verbatim>\<open>dynamic_cast<T*>(p.get())\<close> looks at the most derived
  class of the object; when that is a \<open>T\<close> the result shares \<open>p\<close>'s control block,
  otherwise (also for a null \<open>p\<close>) the result is the empty pointer. Nothing is thrown.
\<close>

definition dynamic_pointer_cast :: "cls \<Rightarrow> shared_ptr \<Rightarrow> state \<Rightarrow> shared_ptr \<times> state" where
  "dynamic_pointer_cast T p s =
     (case stored p of
        None \<Rightarrow> (empty_ptr, s)
      | Some a \<Rightarrow>
          (case heap s a of
             None \<Rightarrow> (empty_ptr, s\<lparr>undefined_behaviour := True\<rparr>)
           | Some ob \<Rightarrow> if is_a (dyn ob) T then (p, acquire p s) else (empty_ptr, s)))"

text \<open>
  \<^verbatim>\<open>v = static_pointer_cast<T>(w)\<close> (line 170): the cast makes the new owner first, then
  the move assignment gives \<open>v\<close> the new value and releases what \<open>v\<close> owned before.
\<close>

definition assign_static_cast :: "var \<Rightarrow> var \<Rightarrow> stmt" where
  "assign_static_cast v w s =
     (case static_pointer_cast (svars s w) s of
        (p, s1) \<Rightarrow>
          (let old = svars s1 v
           in Inr (release old (s1\<lparr>svars := (svars s1)(v := p)\<rparr>))))"

text \<open>\<^verbatim>\<open>auto v = dynamic_pointer_cast<T>(w)\<close> (line 175).\<close>

definition init_dynamic_cast :: "cls \<Rightarrow> var \<Rightarrow> var \<Rightarrow> stmt" where
  "init_dynamic_cast T v w s =
     (case dynamic_pointer_cast T (svars s w) s of
        (p, s1) \<Rightarrow> Inr (s1\<lparr>svars := (svars s1)(v := p)\<rparr>))"

definition shared_to_string :: "var \<Rightarrow> stmt" where
  "shared_to_string v s = call_to_string (stored (svars s v)) s"

text \<open>\<^verbatim>\<open>cout << label << v.get() << endl\<close> (lines 151, 152).\<close>

definition say_get :: "string \<Rightarrow> var \<Rightarrow> stmt" where
  "say_get label v s = Inr (print [Txt label, Ptr (stored (svars s v)), Endl] s)"

text \<open>\<^verbatim>\<open>cout << label << v->member << endl\<close> (lines 155, 156).\<close>

definition say_member :: "string \<Rightarrow> var \<Rightarrow> stmt" where
  "say_member label v s =
     (case read_member (stored (svars s v)) s of
        Inl e \<Rightarrow> Inl e
      | Inr m \<Rightarrow> Inr (print [Txt label, Txt m, Endl] s))"

text \<open>\<^verbatim>\<open>cout << endl << label << v.use_count() << endl\<close> (lines 158, 178).\<close>

definition say_use_count :: "string \<Rightarrow> var \<Rightarrow> stmt" where
  "say_use_count label v s =
     Inr (print [Endl, Txt label, Num (use_count (svars s v) s), Endl] s)"

text \<open>
  \<^verbatim>\<open>shared_pointer_example\<close>, lines 148-180, one statement per element (a source line
  with two statements gives two elements); the last five are the destructors of the locals
  at the closing brace, in reverse order of declaration.
\<close>

definition shared_pointer_example_body :: "stmt list" where
  "shared_pointer_example_body =
     [make_shared SA ptrA,                         \<comment> \<open>1: line 148\<close>
      copy_shared ptrB ptrA,                       \<comment> \<open>2: line 149\<close>
      say_get ''ptrA points to '' ptrA,            \<comment> \<open>3: line 151\<close>
      say_get ''ptrB points to '' ptrB,            \<comment> \<open>4: line 152\<close>
      say [Endl],                                  \<comment> \<open>5: line 154\<close>
      say_member ''ptrA member: '' ptrA,           \<comment> \<open>6: line 155\<close>
      say_member ''ptrB member: '' ptrB,           \<comment> \<open>7: line 156\<close>
      say_use_count ''ptrA usecount is: '' ptrA,   \<comment> \<open>8: line 158\<close>
      shared_reset ptrA,                           \<comment> \<open>9: line 160\<close>
      shared_reset ptrB,                           \<comment> \<open>10: line 161\<close>
      say [Endl, Txt (''---- Pointer casting: '' @ [CHR 0x0A])],
                                                   \<comment> \<open>11: line 165\<close>
      make_shared SA basePtr,                      \<comment> \<open>12: line 166\<close>
      make_shared SB derivedPtr,                   \<comment> \<open>13: line 167\<close>
      say [Endl, Txt ''basePtr: ''],               \<comment> \<open>14: line 169\<close>
      shared_to_string basePtr,                    \<comment> \<open>15: line 169\<close>
      assign_static_cast basePtr derivedPtr,       \<comment> \<open>16: line 170\<close>
      say [Endl, Txt ''basePtr went up class hierarchy! ''],
                                                   \<comment> \<open>17: line 171\<close>
      say [Endl, Txt ''basePtr: ''],               \<comment> \<open>18: line 172\<close>
      shared_to_string basePtr,                    \<comment> \<open>19: line 172\<close>
      init_dynamic_cast SB downCastPtr basePtr,    \<comment> \<open>20: line 175\<close>
      say [Endl, Txt ''downCastPtr: ''],           \<comment> \<open>21: line 176\<close>
      shared_to_string downCastPtr,                \<comment> \<open>22: line 176\<close>
      say_use_count ''How many pointers point to the Derived class (B)? '' derivedPtr,
                                                   \<comment> \<open>23: line 178\<close>
      shared_reset downCastPtr,                    \<comment> \<open>24: line 180, end of scope\<close>
      shared_reset derivedPtr,                     \<comment> \<open>25: line 180, end of scope\<close>
      shared_reset basePtr,                        \<comment> \<open>26: line 180, end of scope\<close>
      shared_reset ptrB,                           \<comment> \<open>27: line 180, end of scope\<close>
      shared_reset ptrA]                           \<comment> \<open>28: line 180, end of scope\<close>"

definition shared_pointer_example :: "state \<Rightarrow> fault + state" where
  "shared_pointer_example s = run shared_pointer_example_body (enter s)"

text \<open>The state after the first \<open>k\<close> statements of the example.\<close>

definition shared_pointer_example_upto :: "nat \<Rightarrow> state \<Rightarrow> fault + state" where
  "shared_pointer_example_upto k s = run (take k shared_pointer_example_body) (enter s)"

section \<open>The state at program start\<close>

text \<open>
  \<^verbatim>\<open>main\<close> begins with an empty free store and console; the allocator's first address is
  taken to be 0.
\<close>

definition start :: state where
  "start =
     \<lparr>heap = Map.empty, blocks = Map.empty, next_addr = 0,
      uvars = (\<lambda>v. None), svars = (\<lambda>v. empty_ptr),
      cout = [], undefined_behaviour = False\<rparr>"

section \<open>Properties of the vector functions and the printer\<close>

lemma modify_vector_length: "length (fst (modify_vector rand v g)) = length v"
proof (induction v arbitrary: g)
  case Nil
  then show ?case by simp
next
  case (Cons y v)
  obtain r g' where rg: "rand g = (r, g')"
    by (cases "rand g")
  obtain v' g'' where rest: "modify_vector rand v g' = (v', g'')"
    by (cases "modify_vector rand v g'")
  from Cons.IH [of g'] rest have "length v' = length v"
    by simp
  then show ?case
    using rg rest by simp
qed

lemma smod_10_range:
  fixes r :: int
  assumes "0 \<le> r"
  shows "0 \<le> r smod 10 \<and> r smod 10 \<le> 9"
proof -
  have "r smod 10 = r mod 10"
    using assms by (simp add: smod_int_alt_def sgn_if)
  moreover have "0 \<le> r mod 10" and "r mod 10 < 10"
    by simp_all
  ultimately show ?thesis
    by simp
qed

lemma modify_vector_range:
  assumes "\<And>h. 0 \<le> fst (rand h)"
  shows "x \<in> set (fst (modify_vector rand v g)) \<Longrightarrow> 0 \<le> x \<and> x \<le> 9"
proof (induction v arbitrary: g)
  case Nil
  then show ?case by simp
next
  case (Cons y v)
  obtain r g' where rg: "rand g = (r, g')"
    by (cases "rand g")
  obtain v' g'' where rest: "modify_vector rand v g' = (v', g'')"
    by (cases "modify_vector rand v g'")
  from assms [of g] rg have "0 \<le> r"
    by simp
  then have here: "0 \<le> r smod 10 \<and> r smod 10 \<le> 9"
    by (rule smod_10_range)
  from Cons.prems rg rest have "x = r smod 10 \<or> x \<in> set (fst (modify_vector rand v g'))"
    by simp
  then show ?case
    using here Cons.IH [of g'] by blast
qed

lemma lcg_rand_nonneg: "0 \<le> fst (lcg_rand g)"
  by (simp add: lcg_rand_def Let_def)

text \<open>
  Claim C9. For every vector, \<open>modify_vector\<close> leaves the length unchanged and every
  element is between 0 and 9 on return. \<^verbatim>\<open>rand\<close> returns a number that is not negative,
  as the C standard says (between 0 and \<^verbatim>\<open>RAND_MAX\<close>).
\<close>

theorem modify_vector_length_and_range:
  assumes "\<And>h. 0 \<le> fst (rand h)"
  shows "length (fst (modify_vector rand v g)) = length v \<and>
         (\<forall>x \<in> set (fst (modify_vector rand v g)). 0 \<le> x \<and> x \<le> 9)"
proof
  show "length (fst (modify_vector rand v g)) = length v"
    by (rule modify_vector_length)
  show "\<forall>x \<in> set (fst (modify_vector rand v g)). 0 \<le> x \<and> x \<le> 9"
    using assms by (blast dest: modify_vector_range [rotated])
qed

lemma fill_vector_20:
  "fill_vector [] 20 = [0, 1, 2, 3, 4, 5, 6, 7, 8, 9, 10, 11, 12, 13, 14, 15, 16, 17, 18, 19]"
  by code_simp

theorem modify_vector_length_and_range_witness:
  "(\<forall>h. 0 \<le> fst (lcg_rand h)) \<and>
   length (fill_vector [] 20) = 20 \<and>
   length (fst (modify_vector lcg_rand (fill_vector [] 20) 1)) = length (fill_vector [] 20) \<and>
   set (fst (modify_vector lcg_rand (fill_vector [] 20) 1)) \<subseteq> {0..9}"
proof -
  have contract: "\<And>h. 0 \<le> fst (lcg_rand h)"
    by (rule lcg_rand_nonneg)
  have filled: "length (fill_vector [] 20) = 20"
    by (simp add: fill_vector_20)
  from modify_vector_length_and_range [of lcg_rand "fill_vector [] 20" 1, OF contract]
  have "length (fst (modify_vector lcg_rand (fill_vector [] 20) 1)) = length (fill_vector [] 20)"
    and "set (fst (modify_vector lcg_rand (fill_vector [] 20) 1)) \<subseteq> {0..9}"
    by (blast, fastforce)
  with contract filled show ?thesis
    by blast
qed

lemma output_values_eq:
  "output_values args out =
     out @ concat (map (\<lambda>a. [a, Endl]) args) @
     [Txt ''This is the final function call.. I am an empty function'', Endl]"
  by (induction args arbitrary: out) simp_all

lemma output_lines_append: "output_lines (xs @ ys) = output_lines xs + output_lines ys"
  by (simp add: output_lines_def)

lemma output_lines_arguments:
  "output_lines (concat (map (\<lambda>a. [a, Endl]) args)) =
     sum_list (map line_breaks args) + length args"
  by (induction args) (simp_all add: output_lines_def)

lemma output_lines_output_values:
  "output_lines (output_values args out) =
     output_lines out + sum_list (map line_breaks args) + length args + 1"
  by (simp add: output_values_eq output_lines_append output_lines_arguments)
     (simp add: output_lines_def)

lemma no_line_breaks_sum:
  "\<forall>a \<in> set args. line_breaks a = 0 \<Longrightarrow> sum_list (map line_breaks args) = 0"
  by (induction args) simp_all

text \<open>
  Claim C10 as stated fails: the printer writes each argument in order, \<^verbatim>\<open>endl\<close> after
  each, and the closing line once, but an argument that is a text with a line break in it
  takes more than one line of the console. One such argument gives three lines, not two.
\<close>

theorem output_values_lines_counterexample:
  "output_lines (output_values [Txt [CHR ''a'', CHR 0x0A, CHR ''b'']] []) \<noteq>
     length [Txt [CHR ''a'', CHR 0x0A, CHR ''b'']] + 1"
  by (simp add: output_lines_def)

text \<open>
  Claim C10, amended. For every list of \<open>n\<close> arguments, whatever they are,
  \<open>output_values\<close> adds to the console each argument in order, \<^verbatim>\<open>endl\<close> after each, and
  then the closing line exactly once, and nothing else; the lines this adds are the \<open>n\<close>
  line ends, the closing line's, and the line breaks the arguments print themselves. When
  no argument prints a line break of its own, that is \<open>n + 1\<close> lines.
\<close>

theorem output_values_lines:
  "output_values args out =
     out @ concat (map (\<lambda>a. [a, Endl]) args) @
     [Txt ''This is the final function call.. I am an empty function'', Endl] \<and>
   output_lines (output_values args out) =
     output_lines out + sum_list (map line_breaks args) + length args + 1 \<and>
   ((\<forall>a \<in> set args. line_breaks a = 0) \<longrightarrow>
      output_lines (output_values args out) = output_lines out + length args + 1)"
proof (intro conjI impI)
  show "output_values args out =
     out @ concat (map (\<lambda>a. [a, Endl]) args) @
     [Txt ''This is the final function call.. I am an empty function'', Endl]"
    by (rule output_values_eq)
  show "output_lines (output_values args out) =
     output_lines out + sum_list (map line_breaks args) + length args + 1"
    by (rule output_lines_output_values)
  show "output_lines (output_values args out) = output_lines out + length args + 1"
    if "\<forall>a \<in> set args. line_breaks a = 0"
    using no_line_breaks_sum [OF that] by (simp add: output_lines_output_values)
qed

theorem output_values_lines_witness:
  "list_all (\<lambda>a. line_breaks a = 0) [Num 8, Num 8, Num 3, Num 5, Num 1] \<and>
   output_values [Num 8, Num 8, Num 3, Num 5, Num 1] [] =
     [Num 8, Endl, Num 8, Endl, Num 3, Endl, Num 5, Endl, Num 1, Endl,
      Txt ''This is the final function call.. I am an empty function'', Endl] \<and>
   output_lines (output_values [Num 8, Num 8, Num 3, Num 5, Num 1] []) = 6 \<and>
   output_values [Txt [CHR ''a'', CHR 0x0A, CHR ''b''], Num 7] [] =
     [Txt [CHR ''a'', CHR 0x0A, CHR ''b''], Endl, Num 7, Endl,
      Txt ''This is the final function call.. I am an empty function'', Endl] \<and>
   output_lines (output_values [Txt [CHR ''a'', CHR 0x0A, CHR ''b''], Num 7] []) = 4"
proof -
  have h: "\<forall>a \<in> set [Num 8, Num 8, Num 3, Num 5, Num 1]. line_breaks a = 0"
    by simp
  have numbers:
    "output_values [Num 8, Num 8, Num 3, Num 5, Num 1] [] =
       [] @ concat (map (\<lambda>a. [a, Endl]) [Num 8, Num 8, Num 3, Num 5, Num 1]) @
       [Txt ''This is the final function call.. I am an empty function'', Endl]"
    "output_lines (output_values [Num 8, Num 8, Num 3, Num 5, Num 1] []) =
       output_lines [] + length [Num 8, Num 8, Num 3, Num 5, Num 1] + 1"
    using output_values_lines [of "[Num 8, Num 8, Num 3, Num 5, Num 1]" "[]"] h
    by blast+
  have texts:
    "output_values [Txt [CHR ''a'', CHR 0x0A, CHR ''b''], Num 7] [] =
       [] @ concat (map (\<lambda>a. [a, Endl]) [Txt [CHR ''a'', CHR 0x0A, CHR ''b''], Num 7]) @
       [Txt ''This is the final function call.. I am an empty function'', Endl]"
    "output_lines (output_values [Txt [CHR ''a'', CHR 0x0A, CHR ''b''], Num 7] []) =
       output_lines [] +
       sum_list (map line_breaks [Txt [CHR ''a'', CHR 0x0A, CHR ''b''], Num 7]) +
       length [Txt [CHR ''a'', CHR 0x0A, CHR ''b''], Num 7] + 1"
    using output_values_lines [of "[Txt [CHR ''a'', CHR 0x0A, CHR ''b''], Num 7]" "[]"]
    by blast+
  have "list_all (\<lambda>a. line_breaks a = 0) [Num 8, Num 8, Num 3, Num 5, Num 1]"
    by simp
  moreover have "output_values [Num 8, Num 8, Num 3, Num 5, Num 1] [] =
     [Num 8, Endl, Num 8, Endl, Num 3, Endl, Num 5, Endl, Num 1, Endl,
      Txt ''This is the final function call.. I am an empty function'', Endl]"
    unfolding numbers(1) by simp
  moreover have "output_lines (output_values [Num 8, Num 8, Num 3, Num 5, Num 1] []) = 6"
    unfolding numbers(2) by (simp add: output_lines_def)
  moreover have "output_values [Txt [CHR ''a'', CHR 0x0A, CHR ''b''], Num 7] [] =
     [Txt [CHR ''a'', CHR 0x0A, CHR ''b''], Endl, Num 7, Endl,
      Txt ''This is the final function call.. I am an empty function'', Endl]"
    unfolding texts(1) by simp
  moreover have "output_lines (output_values [Txt [CHR ''a'', CHR 0x0A, CHR ''b''], Num 7] []) = 4"
    unfolding texts(2) by (simp add: output_lines_def)
  ultimately show ?thesis
    by blast
qed

section \<open>Properties of the pointer examples\<close>

lemmas operation_defs =
  enter_def say_def print_def Let_def new_object_def set_member_def
  make_unique_def unique_to_string_def unique_reset_def delete_object_def
  call_to_string_def read_member_def use_count_def acquire_def release_def
  make_shared_def copy_shared_def shared_reset_def static_pointer_cast_def
  dynamic_pointer_cast_def assign_static_cast_def init_dynamic_cast_def
  shared_to_string_def say_get_def say_member_def say_use_count_def
  empty_ptr_def is_a_def

lemmas unique_defs =
  unique_pointer_example_upto_def unique_pointer_example_def unique_pointer_example_body_def

lemmas shared_defs =
  shared_pointer_example_upto_def shared_pointer_example_def shared_pointer_example_body_def

text \<open>
  The order inside one object: the base class's constructor body runs before the derived
  class's, and the derived class's destructor body before the base class's.
\<close>

lemma construct_base_first:
  "cout (construct UB a s) = cout s @ [Txt ''A Created'', Endl, Txt ''B:A Created'', Endl]"
  "cout (construct SB a s) = cout s @ [Txt ''A Created'', Endl, Txt ''B:A Created'', Endl]"
  by (simp_all add: print_def set_member_def split: option.splits)

lemma destroy_derived_first:
  "cout (destroy UB s) = cout s @ [Txt ''B:A Destoyed'', Endl, Txt ''A Destroyed'', Endl]"
  "cout (destroy SB s) = cout s @ [Txt ''B:A Destoyed'', Endl, Txt ''A Destroyed'', Endl]"
  by (simp_all add: print_def)

text \<open>
  An exclusive owner typed as the class of its object tears the whole object down:
  \<^verbatim>\<open>ptrB = nullptr\<close> for a \<^verbatim>\<open>unique_ptr<B>\<close> that owns a \<^verbatim>\<open>B\<close>.
\<close>

lemma unique_reset_same_class:
  assumes "uvars s v = Some a" and "heap s a = Some ob" and "dyn ob = UB"
  shows "\<exists>s'. unique_reset UB v s = Inr s' \<and> heap s' a = None \<and> uvars s' v = None \<and>
           cout s' = cout s @ [Txt ''B:A Destoyed'', Endl, Txt ''A Destroyed'', Endl] \<and>
           undefined_behaviour s' = undefined_behaviour s"
  using assms by (simp add: unique_reset_def delete_object_def Let_def print_def)

text \<open>
  Claim C1 does not hold of the code where the exclusive owner is typed as the base and
  owns a derived object. At the closing brace of \<^verbatim>\<open>unique_pointer_example\<close> (the tenth
  statement) \<^verbatim>\<open>ptrC\<close>, a \<^verbatim>\<open>unique_ptr<A>\<close> that owns a \<^verbatim>\<open>B\<close>, deletes its object
  through \<^verbatim>\<open>A\<close>'s destructor, which is not virtual: the console gets \<^verbatim>\<open>A Destroyed\<close>
  only, the teardown of \<^verbatim>\<open>B\<close> never runs, and the behaviour is undefined in C++.
\<close>

theorem unique_base_owner_skips_derived_teardown:
  "\<exists>s9 s10 a ob.
     unique_pointer_example_upto 9 s = Inr s9 \<and>
     unique_pointer_example_upto 10 s = Inr s10 \<and>
     uvars s9 ptrC = Some a \<and> heap s9 a = Some ob \<and> dyn ob = UB \<and>
     heap s10 a = None \<and>
     cout s10 = cout s9 @ [Txt ''A Destroyed'', Endl] \<and>
     undefined_behaviour s10"
  by (simp add: unique_defs operation_defs)

text \<open>
  Claim C7 does not hold of the code. The base object is created first and the derived
  one second, and lines 117-118 (the fifth and sixth statement) release \<^verbatim>\<open>ptrA\<close> before
  \<^verbatim>\<open>ptrB\<close>: the base object's \<^verbatim>\<open>A Destroyed\<close> comes first, then the derived object's
  \<^verbatim>\<open>B:A Destoyed\<close> and \<^verbatim>\<open>A Destroyed\<close>. The order is that of creation, not its
  reverse.
\<close>

theorem unique_release_in_creation_order:
  "\<exists>s4 s5 s6 a b oa ob.
     unique_pointer_example_upto 4 s = Inr s4 \<and>
     unique_pointer_example_upto 5 s = Inr s5 \<and>
     unique_pointer_example_upto 6 s = Inr s6 \<and>
     cout s4 = cout s @
       [Txt ''A Created'', Endl, Txt ''I am an A'', Endl,
        Txt ''A Created'', Endl, Txt ''B:A Created'', Endl, Txt ''I am a B'', Endl] \<and>
     uvars s4 ptrA = Some a \<and> heap s4 a = Some oa \<and> dyn oa = UA \<and>
     uvars s4 ptrB = Some b \<and> heap s4 b = Some ob \<and> dyn ob = UB \<and> a \<noteq> b \<and>
     heap s5 a = None \<and> heap s5 b = Some ob \<and>
     cout s5 = cout s4 @ [Txt ''A Destroyed'', Endl] \<and>
     heap s6 b = None \<and>
     cout s6 = cout s5 @ [Txt ''B:A Destoyed'', Endl, Txt ''A Destroyed'', Endl]"
  by (simp add: unique_defs operation_defs)

lemma dynamic_pointer_cast_live:
  assumes "stored p = Some a" and "heap s a = Some ob"
  shows "dynamic_pointer_cast T p s =
           (if is_a (dyn ob) T then (p, acquire p s) else (empty_ptr, s))"
  using assms by (simp add: dynamic_pointer_cast_def)

lemma is_a_SB: "is_a c SB = (c = SB)"
  by (cases c) (simp_all add: is_a_def)

lemma use_count_acquire:
  assumes "block p = Some c" and "blocks s c = Some cb"
  shows "use_count p (acquire p s) = use_count p s + 1"
  using assms by (simp add: use_count_def acquire_def)

lemma acquire_keeps: "heap (acquire p s) = heap s \<and> cout (acquire p s) = cout s"
  by (simp add: acquire_def split: option.splits)

lemma demo_downcast:
  "\<exists>s19 s20 a ob.
       shared_pointer_example_upto 19 s0 = Inr s19 \<and>
       shared_pointer_example_upto 20 s0 = Inr s20 \<and>
       stored (svars s19 basePtr) = Some a \<and> heap s19 a = Some ob \<and> dyn ob = SB \<and>
       svars s20 downCastPtr = svars s19 basePtr \<and>
       stored (svars s20 downCastPtr) = Some a \<and>
       use_count (svars s20 downCastPtr) s20 = use_count (svars s19 basePtr) s19 + 1"
  by (simp add: shared_defs operation_defs)

lemma start_upto_19:
  "\<exists>s. shared_pointer_example_upto 19 start = Inr s \<and>
       svars s basePtr = \<lparr>stored = Some 2, block = Some 2\<rparr> \<and>
       heap s 2 = Some \<lparr>dyn = SB, member = ''B''\<rparr> \<and>
       blocks s 2 = Some \<lparr>managed = 2, made_as = SB, owners = 2\<rparr>"
  by (simp add: shared_defs operation_defs start_def)

lemma start_upto_14:
  "\<exists>s. shared_pointer_example_upto 14 start = Inr s \<and>
       svars s basePtr = \<lparr>stored = Some 1, block = Some 1\<rparr> \<and>
       heap s 1 = Some \<lparr>dyn = SA, member = ''A''\<rparr> \<and>
       blocks s 1 = Some \<lparr>managed = 1, made_as = SA, owners = 1\<rparr>"
  by (simp add: shared_defs operation_defs start_def)

text \<open>
  Claim C2. A downward conversion \<^verbatim>\<open>dynamic_pointer_cast<B>\<close> of a base-typed shared owner
  never fails loudly: for a null owner it returns the empty pointer; for an owner of a live
  object it returns a non-null pointer exactly when the object's most derived class is
  \<^verbatim>\<open>B\<close>, and then the result is a further co-owner of the same object (same address, one
  owner more, nothing destroyed or printed), otherwise the empty pointer and an unchanged
  state. In \<^verbatim>\<open>shared_pointer_example\<close> (line 175, the twentieth statement) \<^verbatim>\<open>basePtr\<close>
  refers to a \<^verbatim>\<open>B\<close>, and \<^verbatim>\<open>downCastPtr\<close> becomes a non-null co-owner of it.
\<close>

theorem downward_conversion_checked:
  "(stored p = None \<longrightarrow> dynamic_pointer_cast SB p s = (empty_ptr, s)) \<and>
   (stored p = Some a \<and> heap s a = Some ob \<and> block p = Some c \<and> blocks s c = Some cb \<longrightarrow>
      ((stored (fst (dynamic_pointer_cast SB p s)) \<noteq> None) = (dyn ob = SB)) \<and>
      (if dyn ob = SB
       then fst (dynamic_pointer_cast SB p s) = p \<and>
            use_count p (snd (dynamic_pointer_cast SB p s)) = use_count p s + 1 \<and>
            heap (snd (dynamic_pointer_cast SB p s)) = heap s \<and>
            cout (snd (dynamic_pointer_cast SB p s)) = cout s
       else dynamic_pointer_cast SB p s = (empty_ptr, s))) \<and>
   (\<exists>s19 s20 a ob.
       shared_pointer_example_upto 19 s0 = Inr s19 \<and>
       shared_pointer_example_upto 20 s0 = Inr s20 \<and>
       stored (svars s19 basePtr) = Some a \<and> heap s19 a = Some ob \<and> dyn ob = SB \<and>
       svars s20 downCastPtr = svars s19 basePtr \<and>
       stored (svars s20 downCastPtr) = Some a \<and>
       use_count (svars s20 downCastPtr) s20 = use_count (svars s19 basePtr) s19 + 1)"
proof (intro conjI impI)
  show "dynamic_pointer_cast SB p s = (empty_ptr, s)" if "stored p = None"
    using that by (simp add: dynamic_pointer_cast_def)
next
  assume live: "stored p = Some a \<and> heap s a = Some ob \<and> block p = Some c \<and> blocks s c = Some cb"
  then have eq: "dynamic_pointer_cast SB p s =
      (if dyn ob = SB then (p, acquire p s) else (empty_ptr, s))"
    by (simp add: dynamic_pointer_cast_live is_a_SB)
  show "(stored (fst (dynamic_pointer_cast SB p s)) \<noteq> None) = (dyn ob = SB)"
    using live by (simp add: eq empty_ptr_def)
  show "if dyn ob = SB
       then fst (dynamic_pointer_cast SB p s) = p \<and>
            use_count p (snd (dynamic_pointer_cast SB p s)) = use_count p s + 1 \<and>
            heap (snd (dynamic_pointer_cast SB p s)) = heap s \<and>
            cout (snd (dynamic_pointer_cast SB p s)) = cout s
       else dynamic_pointer_cast SB p s = (empty_ptr, s)"
    using live by (simp add: eq use_count_acquire acquire_keeps)
next
  show "\<exists>s19 s20 a ob.
       shared_pointer_example_upto 19 s0 = Inr s19 \<and>
       shared_pointer_example_upto 20 s0 = Inr s20 \<and>
       stored (svars s19 basePtr) = Some a \<and> heap s19 a = Some ob \<and> dyn ob = SB \<and>
       svars s20 downCastPtr = svars s19 basePtr \<and>
       stored (svars s20 downCastPtr) = Some a \<and>
       use_count (svars s20 downCastPtr) s20 = use_count (svars s19 basePtr) s19 + 1"
    by (rule demo_downcast)
qed

theorem downward_conversion_checked_witness:
  "(\<exists>s. shared_pointer_example_upto 19 start = Inr s \<and>
       stored (svars s basePtr) = Some 2 \<and>
       heap s 2 = Some \<lparr>dyn = SB, member = ''B''\<rparr> \<and>
       block (svars s basePtr) = Some 2 \<and>
       blocks s 2 = Some \<lparr>managed = 2, made_as = SB, owners = 2\<rparr> \<and>
       fst (dynamic_pointer_cast SB (svars s basePtr) s) = svars s basePtr \<and>
       use_count (svars s basePtr) (snd (dynamic_pointer_cast SB (svars s basePtr) s)) = 3) \<and>
   (\<exists>s. shared_pointer_example_upto 14 start = Inr s \<and>
       stored (svars s basePtr) = Some 1 \<and>
       heap s 1 = Some \<lparr>dyn = SA, member = ''A''\<rparr> \<and>
       block (svars s basePtr) = Some 1 \<and>
       blocks s 1 = Some \<lparr>managed = 1, made_as = SA, owners = 1\<rparr> \<and>
       dynamic_pointer_cast SB (svars s basePtr) s = (empty_ptr, s))"
proof
  from start_upto_19 obtain s where s:
    "shared_pointer_example_upto 19 start = Inr s"
    "svars s basePtr = \<lparr>stored = Some 2, block = Some 2\<rparr>"
    "heap s 2 = Some \<lparr>dyn = SB, member = ''B''\<rparr>"
    "blocks s 2 = Some \<lparr>managed = 2, made_as = SB, owners = 2\<rparr>"
    by blast
  have count: "use_count (svars s basePtr) s = 2"
    using s by (simp add: use_count_def)
  from downward_conversion_checked
    [of "svars s basePtr" s 2 "\<lparr>dyn = SB, member = ''B''\<rparr>" 2
        "\<lparr>managed = 2, made_as = SB, owners = 2\<rparr>"] s count
  show "\<exists>s. shared_pointer_example_upto 19 start = Inr s \<and>
       stored (svars s basePtr) = Some 2 \<and>
       heap s 2 = Some \<lparr>dyn = SB, member = ''B''\<rparr> \<and>
       block (svars s basePtr) = Some 2 \<and>
       blocks s 2 = Some \<lparr>managed = 2, made_as = SB, owners = 2\<rparr> \<and>
       fst (dynamic_pointer_cast SB (svars s basePtr) s) = svars s basePtr \<and>
       use_count (svars s basePtr) (snd (dynamic_pointer_cast SB (svars s basePtr) s)) = 3"
    by (intro exI [of _ s]) simp
next
  from start_upto_14 obtain s where s:
    "shared_pointer_example_upto 14 start = Inr s"
    "svars s basePtr = \<lparr>stored = Some 1, block = Some 1\<rparr>"
    "heap s 1 = Some \<lparr>dyn = SA, member = ''A''\<rparr>"
    "blocks s 1 = Some \<lparr>managed = 1, made_as = SA, owners = 1\<rparr>"
    by blast
  from downward_conversion_checked
    [of "svars s basePtr" s 1 "\<lparr>dyn = SA, member = ''A''\<rparr>" 1
        "\<lparr>managed = 1, made_as = SA, owners = 1\<rparr>"] s
  show "\<exists>s. shared_pointer_example_upto 14 start = Inr s \<and>
       stored (svars s basePtr) = Some 1 \<and>
       heap s 1 = Some \<lparr>dyn = SA, member = ''A''\<rparr> \<and>
       block (svars s basePtr) = Some 1 \<and>
       blocks s 1 = Some \<lparr>managed = 1, made_as = SA, owners = 1\<rparr> \<and>
       dynamic_pointer_cast SB (svars s basePtr) s = (empty_ptr, s)"
    by (intro exI [of _ s]) simp
qed

text \<open>
  Claim C3. \<^verbatim>\<open>ptrA\<close> and \<^verbatim>\<open>ptrB\<close> co-own one object. Releasing \<^verbatim>\<open>ptrA\<close> (line 160, the
  ninth statement) prints nothing and leaves the object alive with one owner; releasing
  \<^verbatim>\<open>ptrB\<close> (line 161, the tenth statement) prints \<^verbatim>\<open>A Destroyed\<close> once and the object is
  gone; the destructors of the two, empty by then, print nothing more at the closing brace.
\<close>

theorem shared_entity_destroyed_once_after_last_release:
  "\<exists>s8 s9 s10 s26 s28 a ob.
     shared_pointer_example_upto 8 s0 = Inr s8 \<and>
     shared_pointer_example_upto 9 s0 = Inr s9 \<and>
     shared_pointer_example_upto 10 s0 = Inr s10 \<and>
     shared_pointer_example_upto 26 s0 = Inr s26 \<and>
     shared_pointer_example_upto 28 s0 = Inr s28 \<and>
     svars s8 ptrA = svars s8 ptrB \<and> stored (svars s8 ptrA) = Some a \<and>
     heap s8 a = Some ob \<and> use_count (svars s8 ptrA) s8 = 2 \<and>
     cout s9 = cout s8 \<and> heap s9 a = Some ob \<and> use_count (svars s9 ptrB) s9 = 1 \<and>
     cout s10 = cout s9 @ [Txt ''A Destroyed'', Endl] \<and> heap s10 a = None \<and>
     use_count (svars s10 ptrB) s10 = 0 \<and>
     cout s28 = cout s26"
  by (simp add: shared_defs operation_defs)

text \<open>
  Claim C4. \<^verbatim>\<open>to_string\<close> through a base-typed owner of a derived object runs the
  override: \<^verbatim>\<open>ptrC->to_string()\<close> (line 122) and \<^verbatim>\<open>basePtr->to_string()\<close> after the upward
  conversion of \<^verbatim>\<open>derivedPtr\<close> (line 172) both print \<^verbatim>\<open>I am a B\<close>.
\<close>

theorem base_typed_owner_calls_override:
  "(\<exists>s8 s9 a ob.
      unique_pointer_example_upto 8 s0 = Inr s8 \<and>
      unique_pointer_example_upto 9 s0 = Inr s9 \<and>
      uvars s8 ptrC = Some a \<and> heap s8 a = Some ob \<and> dyn ob = UB \<and>
      cout s9 = cout s8 @ [Txt ''I am a B'', Endl]) \<and>
   (\<exists>t18 t19 a ob.
      shared_pointer_example_upto 18 s0 = Inr t18 \<and>
      shared_pointer_example_upto 19 s0 = Inr t19 \<and>
      svars t18 basePtr = svars t18 derivedPtr \<and>
      stored (svars t18 basePtr) = Some a \<and> heap t18 a = Some ob \<and> dyn ob = SB \<and>
      cout t19 = cout t18 @ [Txt ''I am a B'', Endl])"
  by (simp add: unique_defs shared_defs operation_defs)

text \<open>
  Claim C5. The two co-owners report the same identity: \<^verbatim>\<open>ptrA.get()\<close> and
  \<^verbatim>\<open>ptrB.get()\<close> are the same address, \<^verbatim>\<open>ptrA->member\<close> and \<^verbatim>\<open>ptrB->member\<close> the same
  text, and lines 151-156 print them so.
\<close>

theorem co_owners_same_identity:
  "\<exists>s2 s7 a.
     shared_pointer_example_upto 2 s0 = Inr s2 \<and>
     shared_pointer_example_upto 7 s0 = Inr s7 \<and>
     stored (svars s2 ptrA) = Some a \<and> stored (svars s2 ptrB) = Some a \<and>
     read_member (stored (svars s2 ptrA)) s2 = Inr ''A'' \<and>
     read_member (stored (svars s2 ptrB)) s2 = Inr ''A'' \<and>
     cout s7 = cout s2 @
       [Txt ''ptrA points to '', Ptr (Some a), Endl,
        Txt ''ptrB points to '', Ptr (Some a), Endl,
        Endl,
        Txt ''ptrA member: '', Txt ''A'', Endl,
        Txt ''ptrB member: '', Txt ''A'', Endl]"
  by (simp add: shared_defs operation_defs)

text \<open>
  Claim C6. Line 158 prints the owner count 2. \<^verbatim>\<open>ptrA.use_count()\<close> has a value at every
  point of the example, listed here after each number of statements run: 2 from the
  creation of the second owner until the first release, 0 while \<^verbatim>\<open>ptrA\<close> is empty.
\<close>

theorem owner_count_two_while_both_live:
  "(\<exists>s7 s8.
      shared_pointer_example_upto 7 s0 = Inr s7 \<and>
      shared_pointer_example_upto 8 s0 = Inr s8 \<and>
      cout s8 = cout s7 @ [Endl, Txt ''ptrA usecount is: '', Num 2, Endl]) \<and>
   map (\<lambda>k. map_sum id (\<lambda>s. use_count (svars s ptrA) s) (shared_pointer_example_upto k s0))
     [0, 1, 2, 3, 4, 5, 6, 7, 8, 9, 10, 11, 12, 13, 14, 15, 16, 17, 18, 19, 20, 21, 22, 23, 24, 25, 26, 27, 28] =
     [Inr 0, Inr 1, Inr 2, Inr 2, Inr 2, Inr 2, Inr 2, Inr 2, Inr 2, Inr 0, Inr 0, Inr 0, Inr 0, Inr 0, Inr 0,
      Inr 0, Inr 0, Inr 0, Inr 0, Inr 0, Inr 0, Inr 0, Inr 0, Inr 0, Inr 0, Inr 0, Inr 0, Inr 0, Inr 0]"
  by (simp add: shared_defs operation_defs)

text \<open>
  Claim C8. At line 178 \<^verbatim>\<open>derivedPtr\<close>, \<^verbatim>\<open>basePtr\<close> and \<^verbatim>\<open>downCastPtr\<close> share one control
  block, and \<^verbatim>\<open>derivedPtr.use_count()\<close> is 3, which is what the line prints.
\<close>

theorem derived_owner_count_three:
  "\<exists>s22 s23 c.
     shared_pointer_example_upto 22 s0 = Inr s22 \<and>
     shared_pointer_example_upto 23 s0 = Inr s23 \<and>
     block (svars s22 derivedPtr) = Some c \<and>
     block (svars s22 basePtr) = Some c \<and>
     block (svars s22 downCastPtr) = Some c \<and>
     use_count (svars s22 derivedPtr) s22 = 3 \<and>
     cout s23 = cout s22 @
       [Endl, Txt ''How many pointers point to the Derived class (B)? '', Num 3, Endl]"
  by (simp add: shared_defs operation_defs)

end
